theory Spec2Isabelle
  imports Complex_Main
begin

section \<open>Conventions of the embedding\<close>

text \<open>
  The game is a Python program. Python integers are modelled as \<open>int\<close>, Python floats as
  \<open>real\<close> (rounding of the binary representation is not modelled), and a value that may be
  an integer or a float (\<open>Union[int, float]\<close>) as \<open>real\<close>. An exception is a value
  \<open>Inl e\<close> of a sum type. Random draws are read from an oracle \<open>rnd :: nat \<Rightarrow> nat\<close>: every
  outcome of \<open>random.randint\<close> and \<open>random.choice\<close> is produced by some oracle. Rendering,
  sound and particle effects do not feed back into the modelled state and are left out, as
  is the display text of a problem.
\<close>

datatype error = ValueError | ZeroDivisionError | AttributeError

type_synonym rand = "nat \<Rightarrow> nat"

definition then_do :: "error + 'a \<Rightarrow> ('a \<Rightarrow> error + 'b) \<Rightarrow> error + 'b" where
  "then_do m f = (case m of Inl e \<Rightarrow> Inl e | Inr v \<Rightarrow> f v)"

text \<open>\<open>random.randint(a, b)\<close>: an integer of \<open>[a, b]\<close>; an empty range raises ValueError.\<close>

definition randint :: "int \<Rightarrow> int \<Rightarrow> nat \<Rightarrow> error + int" where
  "randint a b r = (if a \<le> b then Inr (a + int (r mod nat (b - a + 1))) else Inl ValueError)"

text \<open>\<open>random.choice(xs)\<close> on a list literal of the source (never empty).\<close>

definition choice :: "'a list \<Rightarrow> nat \<Rightarrow> 'a" where
  "choice xs r = xs ! (r mod length xs)"

text \<open>
  \<open>int(v)\<close> truncates towards zero. \<open>round(v, 2)\<close> rounds to two decimals, a tie to the
  even neighbour (\<open>round(0.125, 2)\<close> is \<open>0.12\<close>). Python rounds the binary value of the
  float, which for a decimal tie that has no exact binary form lies on one side of the tie;
  that side is not modelled. No answer the generators build is a tie.
\<close>

definition py_int :: "real \<Rightarrow> int" where
  "py_int v = (if 0 \<le> v then \<lfloor>v\<rfloor> else \<lceil>v\<rceil>)"

definition round_half_even :: "real \<Rightarrow> int" where
  "round_half_even v =
     (let f = \<lfloor>v\<rfloor>; d = v - real_of_int f
      in if d < 1 / 2 then f else if d > 1 / 2 then f + 1
         else if even f then f else f + 1)"

definition round2 :: "real \<Rightarrow> real" where
  "round2 v = real_of_int (round_half_even (v * 100)) / 100"

section \<open>Problem\<close>

text \<open>
  The operator strings of the source: \<open>+\<close>, \<open>-\<close>, the multiplication sign, the division
  sign, \<open>^2\<close>, the root sign, \<open>^3\<close> and \<open>^\<close>. They are only compared for equality.
\<close>

datatype operator = Plus | Minus | Times | Divide | Square | Root | Cube | Power

text \<open>An attribute that a generator never assigns is \<open>None\<close> (\<open>hasattr\<close> is false).\<close>

record problem =
  difficulty :: int
  num1 :: "int option"
  num2 :: "int option"
  num3 :: "int option"
  operator :: "operator option"
  correct_answer :: real

definition max_difficulty :: int where
  "max_difficulty = 15"

text \<open>\<open>Problem._calculate_answer\<close>, reading \<open>self.operator\<close>, \<open>self.num1\<close>, \<open>self.num2\<close>.\<close>

definition calculate_answer :: "operator option \<Rightarrow> int \<Rightarrow> int \<Rightarrow> error + real" where
  "calculate_answer opr n1 n2 =
     (case opr of
        None \<Rightarrow> Inr 0
      | Some Plus \<Rightarrow> Inr (real_of_int (n1 + n2))
      | Some Minus \<Rightarrow> Inr (real_of_int (n1 - n2))
      | Some Times \<Rightarrow> Inr (real_of_int (n1 * n2))
      | Some Divide \<Rightarrow>
          (if n2 = 0 then Inl ZeroDivisionError
           else if n1 mod n2 = 0 then Inr (real_of_int (n1 div n2))
           else Inr (round2 (real_of_int n1 / real_of_int n2)))
      | Some _ \<Rightarrow> Inr 0)"

text \<open>\<open>Problem._generate_basic_arithmetic\<close> (difficulty 1 to 3).\<close>

definition generate_basic_arithmetic :: "int \<Rightarrow> rand \<Rightarrow> error + problem" where
  "generate_basic_arithmetic d rnd =
     (let max_num = 10 * d in
      then_do (randint 1 max_num (rnd 0)) (\<lambda>n1.
      then_do (randint 1 max_num (rnd 1)) (\<lambda>n2.
        let opr = (if d = 1 then Plus else choice [Plus, Minus] (rnd 2));
            swap = (d \<noteq> 1 \<and> opr = Minus \<and> n2 > n1);
            a = (if swap then n2 else n1);
            b = (if swap then n1 else n2)
        in then_do (calculate_answer (Some opr) a b) (\<lambda>c.
             Inr \<lparr>difficulty = d, num1 = Some a, num2 = Some b, num3 = None,
                  operator = Some opr, correct_answer = c\<rparr>))))"

text \<open>\<open>Problem._generate_intermediate_arithmetic\<close> (difficulty 4 to 6).\<close>

definition generate_intermediate_arithmetic :: "int \<Rightarrow> rand \<Rightarrow> error + problem" where
  "generate_intermediate_arithmetic d rnd =
     (let max_num = 8 * d; small_max = max_num div 2 in
      then_do (randint 2 max_num (rnd 0)) (\<lambda>n1.
        let opr = (if d \<le> 4 then choice [Plus, Minus, Times] (rnd 1)
                   else choice [Plus, Minus, Times, Divide] (rnd 1))
        in then_do
             (if opr = Plus \<or> opr = Minus then
                then_do (randint 1 max_num (rnd 2)) (\<lambda>n2.
                  if opr = Minus \<and> n2 > n1 then Inr (n2, n1) else Inr (n1, n2))
              else if opr = Times then
                then_do (randint 2 small_max (rnd 2)) (\<lambda>n2. Inr (n1, n2))
              else if opr = Divide then
                then_do (randint 2 small_max (rnd 2)) (\<lambda>n2.
                then_do (randint 1 10 (rnd 3)) (\<lambda>q. Inr (n2 * q, n2)))
              else Inl AttributeError)
             (\<lambda>(a, b).
                then_do (calculate_answer (Some opr) a b) (\<lambda>c.
                  Inr \<lparr>difficulty = d, num1 = Some a, num2 = Some b, num3 = None,
                       operator = Some opr, correct_answer = c\<rparr>))))"

text \<open>\<open>Problem._generate_advanced_arithmetic\<close> (difficulty 7 to 9).\<close>

definition mixed_ops :: "(operator \<times> (int \<Rightarrow> int \<Rightarrow> int \<Rightarrow> int)) list" where
  "mixed_ops = [(Plus, \<lambda>a b c. a * b + c), (Minus, \<lambda>a b c. a * b - c),
                (Plus, \<lambda>a b c. a + b * c), (Minus, \<lambda>a b c. a - b * c)]"

definition generate_advanced_arithmetic :: "int \<Rightarrow> rand \<Rightarrow> error + problem" where
  "generate_advanced_arithmetic d rnd =
     then_do (randint 1 5 (rnd 0)) (\<lambda>operation_type.
       if operation_type = 1 then
         then_do (randint 2 20 (rnd 1)) (\<lambda>n1.
           Inr \<lparr>difficulty = d, num1 = Some n1, num2 = None, num3 = None,
                operator = Some Square, correct_answer = real_of_int (n1 ^ 2)\<rparr>)
       else if operation_type = 2 then
         then_do (randint 2 15 (rnd 1)) (\<lambda>result.
           Inr \<lparr>difficulty = d, num1 = Some (result ^ 2), num2 = None, num3 = None,
                operator = Some Root, correct_answer = real_of_int result\<rparr>)
       else if operation_type = 3 then
         then_do (randint 2 10 (rnd 1)) (\<lambda>n1.
           Inr \<lparr>difficulty = d, num1 = Some n1, num2 = None, num3 = None,
                operator = Some Cube, correct_answer = real_of_int (n1 ^ 3)\<rparr>)
       else if operation_type = 4 then
         then_do (randint 2 8 (rnd 1)) (\<lambda>n1.
         then_do (randint 2 4 (rnd 2)) (\<lambda>n2.
           Inr \<lparr>difficulty = d, num1 = Some n1, num2 = Some n2, num3 = None,
                operator = Some Power, correct_answer = real_of_int (n1 ^ nat n2)\<rparr>))
       else
         then_do (randint 2 15 (rnd 1)) (\<lambda>n1.
         then_do (randint 2 10 (rnd 2)) (\<lambda>n2.
         then_do (randint 2 20 (rnd 3)) (\<lambda>n3.
           let op_choice = choice mixed_ops (rnd 4) in
           Inr \<lparr>difficulty = d, num1 = Some n1, num2 = Some n2, num3 = Some n3,
                operator = Some (fst op_choice),
                correct_answer = real_of_int (snd op_choice n1 n2 n3)\<rparr>))))"

text \<open>\<open>Problem._generate_simple_algebra\<close> (difficulty 10 to 12): only the answer is stored.\<close>

definition answer_only :: "int \<Rightarrow> real \<Rightarrow> problem" where
  "answer_only d c = \<lparr>difficulty = d, num1 = None, num2 = None, num3 = None,
                       operator = None, correct_answer = c\<rparr>"

definition generate_simple_algebra :: "int \<Rightarrow> rand \<Rightarrow> error + problem" where
  "generate_simple_algebra d rnd =
     then_do (randint 1 3 (rnd 0)) (\<lambda>equation_type.
       if equation_type = 1 \<or> equation_type = 2 then
         then_do (randint 1 8 (rnd 1)) (\<lambda>a.
         then_do (randint 1 12 (rnd 2)) (\<lambda>x.
         then_do (randint 1 20 (rnd 3)) (\<lambda>b.
           Inr (answer_only d (real_of_int x)))))
       else
         then_do (randint 1 20 (rnd 1)) (\<lambda>x.
         then_do (randint 1 20 (rnd 2)) (\<lambda>y.
           if choice [True, False] (rnd 3) then Inr (answer_only d (real_of_int x))
           else Inr (answer_only d (real_of_int y)))))"

text \<open>
  \<open>Problem._generate_advanced_math\<close> (difficulty 13 to 15). The branch for
  \<open>problem_type == 3\<close> builds a quadratic from the two drawn roots \<open>x1\<close> and \<open>x2\<close>.
\<close>

datatype shape = Square_shape | Circle | Triangle | Rectangle

definition quadratic_answer :: "int \<Rightarrow> int \<Rightarrow> int" where
  "quadratic_answer x1 x2 = (if \<bar>x1\<bar> \<le> \<bar>x2\<bar> then x1 else x2)"

definition generate_advanced_math :: "int \<Rightarrow> rand \<Rightarrow> error + problem" where
  "generate_advanced_math d rnd =
     then_do (randint 1 5 (rnd 0)) (\<lambda>problem_type.
       if problem_type = 1 then
         Inr (answer_only d
           (snd (choice [(0::int, 0::real), (30, 0.5), (45, 0.707), (60, 0.866), (90, 1)] (rnd 1))))
       else if problem_type = 2 then
         Inr (answer_only d
           (snd (choice [(0::int, 1::real), (30, 0.866), (45, 0.707), (60, 0.5), (90, 0)] (rnd 1))))
       else if problem_type = 3 then
         then_do (randint (- 5) 5 (rnd 1)) (\<lambda>x1.
         then_do (randint (- 5) 5 (rnd 2)) (\<lambda>x2.
           Inr (answer_only d (real_of_int (quadratic_answer x1 x2)))))
       else if problem_type = 4 then
         (let shp = choice [Square_shape, Circle, Triangle, Rectangle] (rnd 1) in
          if shp = Square_shape then
            then_do (randint 3 15 (rnd 2)) (\<lambda>side.
              if choice [True, False] (rnd 3) then Inr (answer_only d (real_of_int (side * side)))
              else Inr (answer_only d (real_of_int (4 * side))))
          else if shp = Circle then
            then_do (randint 1 10 (rnd 2)) (\<lambda>radius.
              if choice [True, False] (rnd 3)
              then Inr (answer_only d (round2 (pi * real_of_int radius * real_of_int radius)))
              else Inr (answer_only d (round2 (2 * pi * real_of_int radius))))
          else if shp = Triangle then
            then_do (randint 5 20 (rnd 2)) (\<lambda>base.
            then_do (randint 5 15 (rnd 3)) (\<lambda>height.
              Inr (answer_only d (real_of_int ((base * height) div 2)))))
          else
            then_do (randint 5 20 (rnd 2)) (\<lambda>len.
            then_do (randint 3 15 (rnd 3)) (\<lambda>width.
              if choice [True, False] (rnd 4) then Inr (answer_only d (real_of_int (len * width)))
              else Inr (answer_only d (real_of_int (2 * (len + width)))))))
       else
         (let base = choice [2::int, 10] (rnd 1) in
          then_do (randint 1 5 (rnd 2)) (\<lambda>power.
            if choice [True, False] (rnd 3) then Inr (answer_only d (real_of_int power))
            else Inr (answer_only d (real_of_int (base ^ nat power))))))"

text \<open>\<open>Problem.generate\<close>, called by the constructor \<open>Problem(difficulty)\<close>.\<close>

definition generate :: "int \<Rightarrow> rand \<Rightarrow> error + problem" where
  "generate d rnd =
     (let diff = min d max_difficulty in
      if diff \<le> 3 then generate_basic_arithmetic d rnd
      else if diff \<le> 6 then generate_intermediate_arithmetic d rnd
      else if diff \<le> 9 then generate_advanced_arithmetic d rnd
      else if diff \<le> 12 then generate_simple_algebra d rnd
      else generate_advanced_math d rnd)"

text \<open>
  \<open>Problem.generate_wrong_answers\<close>. \<open>reverse_digits\<close> is \<open>int(str(n)[::-1])\<close> on a
  non-negative integer. The string of a float holds a decimal point, and \<open>int\<close> of its
  reversal raises ValueError; the floats this program stores as an answer above 9 are not
  whole numbers, so the model raises exactly for the answers that are not whole.
\<close>

fun reverse_digits_acc :: "nat \<Rightarrow> nat \<Rightarrow> nat" where
  "reverse_digits_acc n acc =
     (if n = 0 then acc else reverse_digits_acc (n div 10) (acc * 10 + n mod 10))"

definition reverse_digits :: "nat \<Rightarrow> nat" where
  "reverse_digits n = reverse_digits_acc n 0"

definition operand_confusion ::
  "problem \<Rightarrow> operator \<Rightarrow> (int \<Rightarrow> int \<Rightarrow> int) \<Rightarrow> real \<Rightarrow> error + real" where
  "operand_confusion p opr f fallback =
     (case (num1 p, num2 p) of
        (Some a, Some b) \<Rightarrow>
          (case operator p of
             None \<Rightarrow> Inl AttributeError
           | Some o' \<Rightarrow> if o' \<noteq> opr then Inr (real_of_int (f a b)) else Inr fallback)
      | _ \<Rightarrow> Inr fallback)"

text \<open>The list \<open>strategies\<close>; each entry takes the draw its \<open>random.randint\<close> call reads.\<close>

definition strategies :: "problem \<Rightarrow> (nat \<Rightarrow> error + real) list" where
  "strategies p =
     (let correct = correct_answer p in
      [\<lambda>r. then_do (randint 1 (max 2 (py_int (\<bar>correct\<bar> * 0.2))) r)
              (\<lambda>n. Inr (correct + real_of_int n)),
       \<lambda>r. then_do (randint 1 (max 2 (py_int (\<bar>correct\<bar> * 0.2))) r)
              (\<lambda>n. Inr (correct - real_of_int n)),
       \<lambda>r. Inr (correct * 2),
       \<lambda>r. if correct \<noteq> 0 then Inr (real_of_int \<lfloor>correct / 2\<rfloor>) else Inr 1,
       \<lambda>r. Inr (- correct),
       \<lambda>r. operand_confusion p Plus (\<lambda>a b. a + b) (correct + 1),
       \<lambda>r. operand_confusion p Minus (\<lambda>a b. a - b) (correct - 1),
       \<lambda>r. operand_confusion p Times (\<lambda>a b. a * b) (correct * 2),
       \<lambda>r. Inr (correct + 1),
       \<lambda>r. Inr (correct - 1),
       \<lambda>r. if \<bar>correct\<bar> > 9 then
              (if real_of_int \<lfloor>correct\<rfloor> = correct
               then Inr (real (reverse_digits (nat \<bar>\<lfloor>correct\<rfloor>\<bar>))
                         * (if correct \<ge> 0 then 1 else - 1))
               else Inl ValueError)
            else Inr (correct + 2),
       \<lambda>r. then_do (randint 3 (max 5 (py_int (\<bar>correct\<bar> * 0.5))) r)
              (\<lambda>n. Inr (correct + real_of_int n)),
       \<lambda>r. then_do (randint 3 (max 5 (py_int (\<bar>correct\<bar> * 0.5))) r)
              (\<lambda>n. Inr (correct - real_of_int n))])"

text \<open>The test that guards \<open>wrong_answers.add(wrong)\<close> in the first loop.\<close>

definition acceptable :: "real \<Rightarrow> real list \<Rightarrow> real \<Rightarrow> bool" where
  "acceptable correct wrong_answers wrong =
     (let max_diff = max 10 (\<bar>correct\<bar> * 2) in
      wrong \<noteq> correct \<and> wrong \<notin> set wrong_answers
      \<and> \<bar>wrong - correct\<bar> \<le> max_diff \<and> \<bar>wrong\<bar> \<le> \<bar>correct\<bar> * 5)"

text \<open>
  The first \<open>while\<close> loop. The set \<open>wrong_answers\<close> is a list without duplicates
  (\<open>List.insert\<close> is \<open>set.add\<close>); the order in which Python lists a set is not modelled.
  Iteration uses two draws: the strategy chosen and the draw inside it. \<open>None\<close> is a loop
  that never ends, \<open>Some (Inl e)\<close> an exception.
\<close>

partial_function (option) strategy_loop ::
  "problem \<Rightarrow> int \<Rightarrow> rand \<Rightarrow> nat \<Rightarrow> real list \<Rightarrow> (error + real list \<times> nat) option" where
  "strategy_loop p count rnd i wrong_answers =
     (if int (length wrong_answers) < count \<and> length wrong_answers < length (strategies p) then
        (case choice (strategies p) (rnd i) (rnd (i + 1)) of
           Inl e \<Rightarrow> Some (Inl e)
         | Inr wrong \<Rightarrow>
             strategy_loop p count rnd (i + 2)
               (if acceptable (correct_answer p) wrong_answers wrong
                then List.insert wrong wrong_answers else wrong_answers))
      else Some (Inr (wrong_answers, i)))"

text \<open>
  The second \<open>while\<close> loop. \<open>random.uniform(0.2, 1.8)\<close> is drawn on a grid of thousandths
  of the interval.
\<close>

definition uniform :: "real \<Rightarrow> real \<Rightarrow> nat \<Rightarrow> real" where
  "uniform a b r = a + (b - a) * real (r mod 1001) / 1000"

definition fallback_draw :: "real \<Rightarrow> nat \<Rightarrow> error + real" where
  "fallback_draw correct r =
     (if \<bar>correct\<bar> < 10 then
        then_do (randint (max (- 20) (py_int correct - 20)) (py_int correct + 20) r)
          (\<lambda>n. Inr (real_of_int n))
      else Inr (real_of_int (py_int (correct * uniform 0.2 1.8 r))))"

partial_function (option) fallback_loop ::
  "problem \<Rightarrow> int \<Rightarrow> rand \<Rightarrow> nat \<Rightarrow> real list \<Rightarrow> (error + real list \<times> nat) option" where
  "fallback_loop p count rnd i wrong_answers =
     (if int (length wrong_answers) < count then
        (case fallback_draw (correct_answer p) (rnd i) of
           Inl e \<Rightarrow> Some (Inl e)
         | Inr wrong \<Rightarrow>
             fallback_loop p count rnd (i + 1)
               (if wrong \<noteq> correct_answer p \<and> wrong \<notin> set wrong_answers
                then List.insert wrong wrong_answers else wrong_answers))
      else Some (Inr (wrong_answers, i)))"

definition generate_wrong_answers :: "problem \<Rightarrow> int \<Rightarrow> rand \<Rightarrow> (error + real list) option" where
  "generate_wrong_answers p count rnd =
     (case strategy_loop p count rnd 0 [] of
        None \<Rightarrow> None
      | Some (Inl e) \<Rightarrow> Some (Inl e)
      | Some (Inr (wrong_answers, i)) \<Rightarrow>
          (case fallback_loop p count rnd i wrong_answers of
             None \<Rightarrow> None
           | Some (Inl e) \<Rightarrow> Some (Inl e)
           | Some (Inr (wrong_answers', j)) \<Rightarrow> Some (Inr wrong_answers')))"

text \<open>The invariant of both loops: what the set under construction holds.\<close>

definition answers_inv :: "real \<Rightarrow> int \<Rightarrow> real list \<Rightarrow> bool" where
  "answers_inv correct count ws =
     (distinct ws \<and> correct \<notin> set ws \<and> int (length ws) \<le> max 0 count)"

text \<open>Two generated problems: \<open>5 - 5\<close> at difficulty 2 and \<open>3 + 4\<close> at difficulty 1.\<close>

definition problem_5_minus_5 :: problem where
  "problem_5_minus_5 = \<lparr>difficulty = 2, num1 = Some 5, num2 = Some 5, num3 = None,
                         operator = Some Minus, correct_answer = 0\<rparr>"

definition problem_3_plus_4 :: problem where
  "problem_3_plus_4 = \<lparr>difficulty = 1, num1 = Some 3, num2 = Some 4, num3 = None,
                        operator = Some Plus, correct_answer = 7\<rparr>"

section \<open>Entities\<close>

definition WINDOW_WIDTH :: real where "WINDOW_WIDTH = 900"
definition WINDOW_HEIGHT :: real where "WINDOW_HEIGHT = 700"
definition PLAYER_SPEED :: real where "PLAYER_SPEED = 6"
definition BULLET_SPEED :: real where "BULLET_SPEED = 12"
definition BULLET_SIZE :: real where "BULLET_SIZE = 6"
definition ENEMY_SPEED_BASE :: real where "ENEMY_SPEED_BASE = 1.5"

definition ease_out_quad :: "real \<Rightarrow> real" where
  "ease_out_quad t = 1 - (1 - t) * (1 - t)"

definition clamp :: "real \<Rightarrow> real \<Rightarrow> real \<Rightarrow> real" where
  "clamp v min_val max_val = max min_val (min v max_val)"

text \<open>Float division and \<open>math.sqrt\<close> raise outside their domain.\<close>

definition fdiv :: "real \<Rightarrow> real \<Rightarrow> error + real" where
  "fdiv a b = (if b = 0 then Inl ZeroDivisionError else Inr (a / b))"

definition math_sqrt :: "real \<Rightarrow> error + real" where
  "math_sqrt v = (if v < 0 then Inl ValueError else Inr (sqrt v))"

text \<open>\<open>random.random()\<close>, drawn on a grid of thousandths of \<open>[0, 1)\<close>.\<close>

definition random_unit :: "nat \<Rightarrow> real" where
  "random_unit r = real (r mod 1000) / 1000"

subsection \<open>Bullet\<close>

record bullet =
  bullet_x :: real
  bullet_y :: real
  bullet_dx :: real
  bullet_dy :: real
  bullet_size :: real
  bullet_active :: bool
  trail :: "(real \<times> real) list"
  trail_length :: nat

text \<open>
  \<open>Bullet.__init__\<close>, in exact arithmetic. In binary floating point the quotient and the
  products are rounded, the squares of a very large direction overflow (OverflowError) and
  those of a very small one underflow to zero (the \<open>else\<close> branch is taken); none of this is
  modelled.
\<close>

definition Bullet_init :: "real \<Rightarrow> real \<Rightarrow> real \<times> real \<Rightarrow> real \<Rightarrow> real \<Rightarrow> error + bullet" where
  "Bullet_init x y direction speed sz =
     then_do (math_sqrt ((fst direction)\<^sup>2 + (snd direction)\<^sup>2)) (\<lambda>len.
       if len > 0 then
         then_do (fdiv (fst direction) len) (\<lambda>ux.
         then_do (fdiv (snd direction) len) (\<lambda>uy.
           Inr \<lparr>bullet_x = x, bullet_y = y, bullet_dx = ux * speed, bullet_dy = uy * speed,
                bullet_size = sz, bullet_active = True, trail = [], trail_length = 6\<rparr>))
       else
         Inr \<lparr>bullet_x = x, bullet_y = y, bullet_dx = 0, bullet_dy = - speed,
              bullet_size = sz, bullet_active = True, trail = [], trail_length = 6\<rparr>)"

subsection \<open>Player\<close>

record player =
  player_x :: real
  player_y :: real
  player_size :: real
  player_speed :: real
  player_direction :: "real \<times> real"
  health :: int
  max_health :: int
  invulnerable :: bool
  invulnerable_time :: real
  shooting :: bool
  shoot_timer :: real
  shoot_delay :: real

definition Player_init :: "real \<Rightarrow> real \<Rightarrow> player" where
  "Player_init x y =
     \<lparr>player_x = x, player_y = y, player_size = 20, player_speed = PLAYER_SPEED,
      player_direction = (0, - 1), health = 3, max_health = 3, invulnerable = False,
      invulnerable_time = 0, shooting = False, shoot_timer = 0, shoot_delay = 0.2\<rparr>"

datatype key = K_LEFT | K_a | K_RIGHT | K_d | K_UP | K_w | K_DOWN | K_s | K_SPACE | K_ESCAPE

text \<open>\<open>Player.update\<close>; the result is the player and the bullet returned, if any.\<close>

definition Player_update ::
  "real \<Rightarrow> (key \<Rightarrow> bool) \<Rightarrow> player \<Rightarrow> error + player \<times> bullet option" where
  "Player_update delta_time keys_pressed p =
     (let left = (keys_pressed K_LEFT \<or> keys_pressed K_a);
          dx1 = (if left then 0 - 1 else 0);
          dir1 = (if left then (- 1, 0) else player_direction p);
          right = (keys_pressed K_RIGHT \<or> keys_pressed K_d);
          dx2 = (if right then dx1 + 1 else dx1);
          dir2 = (if right then (1, 0) else dir1);
          up = (keys_pressed K_UP \<or> keys_pressed K_w);
          dy1 = (if up then 0 - 1 else 0);
          dir3 = (if up then (0, - 1) else dir2);
          down = (keys_pressed K_DOWN \<or> keys_pressed K_s);
          dy2 = (if down then dy1 + 1 else dy1);
          dir4 = (if down then (0, 1) else dir3);
          diagonal = (dx2 \<noteq> 0 \<and> dy2 \<noteq> 0);
          dx = (if diagonal then dx2 * 0.7071 else dx2);
          dy = (if diagonal then dy2 * 0.7071 else dy2);
          dir = (if diagonal then (dx, dy) else dir4);
          x = clamp (player_x p + dx * player_speed p)
                (player_size p) (WINDOW_WIDTH - player_size p);
          y = clamp (player_y p + dy * player_speed p)
                (player_size p) (WINDOW_HEIGHT - player_size p);
          inv_time = (if invulnerable p then invulnerable_time p - delta_time
                      else invulnerable_time p);
          inv = (if invulnerable p \<and> inv_time \<le> 0 then False else invulnerable p);
          timer = shoot_timer p - delta_time;
          p' = p\<lparr>player_x := x, player_y := y, player_direction := dir,
                 invulnerable := inv, invulnerable_time := inv_time, shoot_timer := timer\<rparr>
      in if keys_pressed K_SPACE \<and> timer \<le> 0 then
           then_do (Bullet_init (x + fst dir * player_size p) (y + snd dir * player_size p)
                      dir BULLET_SPEED BULLET_SIZE)
             (\<lambda>b. Inr (p'\<lparr>shoot_timer := shoot_delay p\<rparr>, Some b))
         else Inr (p', None))"

subsection \<open>Enemy\<close>

datatype movement = Linear | Sinusoidal | Circular | Accelerating

record enemy =
  enemy_x :: real
  enemy_y :: real
  enemy_difficulty :: int
  enemy_size :: real
  enemy_health :: int
  enemy_speed :: real
  movement_type :: movement
  enemy_direction :: real
  movement_timer :: real
  center_x :: real
  center_y :: real
  is_alive :: bool
  explosion_progress :: real

text \<open>\<open>Enemy.__init__\<close>; the draws are the movement pattern and the heading.\<close>

definition Enemy_init :: "real \<Rightarrow> real \<Rightarrow> int \<Rightarrow> real \<Rightarrow> nat \<Rightarrow> nat \<Rightarrow> enemy" where
  "Enemy_init x y d sz r1 r2 =
     \<lparr>enemy_x = x, enemy_y = y, enemy_difficulty = d, enemy_size = sz,
      enemy_health = (if d \<le> 3 then 1 else if d \<le> 8 then 2 else 3),
      enemy_speed = (if d \<le> 3 then ENEMY_SPEED_BASE * 0.8
                     else if d \<le> 8 then ENEMY_SPEED_BASE * 1.2 else ENEMY_SPEED_BASE * 1.5),
      movement_type = choice [Linear, Sinusoidal, Circular, Accelerating] r1,
      enemy_direction = uniform 0 (2 * pi) r2,
      movement_timer = 0, center_x = x, center_y = y, is_alive = True,
      explosion_progress = 0\<rparr>"

text \<open>
  \<open>Enemy.update\<close> for an enemy that is alive runs two blocks: the movement of its pattern
  (\<open>Enemy_move\<close>) and the test of the screen boundaries (\<open>Enemy_bounce\<close>).
\<close>

definition Enemy_move :: "real \<Rightarrow> rand \<Rightarrow> enemy \<Rightarrow> enemy" where
  "Enemy_move delta_time rnd e0 =
     (let e = e0\<lparr>movement_timer := movement_timer e0 + delta_time\<rparr> in
      if movement_type e = Linear then
        (let d = (if random_unit (rnd 0) < 0.01
                  then enemy_direction e + uniform (- pi / 4) (pi / 4) (rnd 1)
                  else enemy_direction e)
         in e\<lparr>enemy_direction := d,
               enemy_x := enemy_x e + cos d * enemy_speed e,
               enemy_y := enemy_y e + sin d * enemy_speed e\<rparr>)
      else if movement_type e = Sinusoidal then
        (let base_direction = enemy_direction e;
             wave = sin (movement_timer e * 2) * 2
         in e\<lparr>enemy_x := enemy_x e + cos base_direction * enemy_speed e,
               enemy_y := enemy_y e + sin base_direction * enemy_speed e + wave\<rparr>)
      else if movement_type e = Circular then
        (let radius = 50
         in e\<lparr>enemy_x := center_x e + cos (movement_timer e) * radius,
               enemy_y := center_y e + sin (movement_timer e) * radius\<rparr>)
      else
        (let cycle_time = 3;
             cycle_progress =
               (movement_timer e - cycle_time * real_of_int \<lfloor>movement_timer e / cycle_time\<rfloor>)
                 / cycle_time;
             speed_factor = ease_out_quad cycle_progress
         in e\<lparr>enemy_x := enemy_x e + cos (enemy_direction e) * enemy_speed e * speed_factor * 1.5,
               enemy_y := enemy_y e + sin (enemy_direction e) * enemy_speed e * speed_factor * 1.5\<rparr>))"

definition Enemy_bounce :: "enemy \<Rightarrow> enemy" where
  "Enemy_bounce e =
     (let e1 = (if enemy_x e < enemy_size e
                then e\<lparr>enemy_x := enemy_size e, enemy_direction := pi - enemy_direction e\<rparr>
                else if enemy_x e > WINDOW_WIDTH - enemy_size e
                then e\<lparr>enemy_x := WINDOW_WIDTH - enemy_size e,
                       enemy_direction := pi - enemy_direction e\<rparr>
                else e)
      in if enemy_y e1 < enemy_size e1
         then e1\<lparr>enemy_y := enemy_size e1, enemy_direction := - enemy_direction e1\<rparr>
         else if enemy_y e1 > WINDOW_HEIGHT - enemy_size e1
         then e1\<lparr>enemy_y := WINDOW_HEIGHT - enemy_size e1,
                 enemy_direction := - enemy_direction e1\<rparr>
         else e1)"

definition Enemy_update :: "real \<Rightarrow> rand \<Rightarrow> enemy \<Rightarrow> enemy" where
  "Enemy_update delta_time rnd e =
     (if \<not> is_alive e then e\<lparr>explosion_progress := explosion_progress e + 0.05\<rparr>
      else Enemy_bounce (Enemy_move delta_time rnd e))"

text \<open>\<open>Enemy.hit\<close>: the enemy after the hit, and whether it was killed.\<close>

definition Enemy_hit :: "enemy \<Rightarrow> enemy \<times> bool" where
  "Enemy_hit e =
     (let e' = e\<lparr>enemy_health := enemy_health e - 1\<rparr>
      in if enemy_health e' \<le> 0 then (e'\<lparr>is_alive := False\<rparr>, True) else (e', False))"

text \<open>An enemy on the lower right corner of the arena, heading down and right.\<close>

definition corner_enemy :: enemy where
  "corner_enemy =
     \<lparr>enemy_x = 870, enemy_y = 670, enemy_difficulty = 1, enemy_size = 30,
      enemy_health = 1, enemy_speed = 1.2, movement_type = Linear,
      enemy_direction = pi / 4, movement_timer = 0, center_x = 400, center_y = 300,
      is_alive = True, explosion_progress = 0\<rparr>"

section \<open>Game\<close>

datatype GameState = MENU | PLAYING | PAUSED | GAME_OVER | LEVEL_TRANSITION

text \<open>An answer button is kept as the answer it shows and whether that answer is correct.\<close>

record game =
  state :: GameState
  score :: int
  high_score :: int
  level :: int
  streak :: int
  enemies_killed :: int
  total_enemies_killed :: int
  state_timer :: real
  player :: player
  bullets :: "bullet list"
  enemies :: "enemy list"
  current_problem :: "problem option"
  answer_buttons :: "(real \<times> bool) list"

definition game_width :: int where "game_width = 900"
definition game_height :: int where "game_height = 700"

text \<open>
  \<open>random.shuffle\<close>: for \<open>i\<close> from the last index down to 1, swap the entries at \<open>i\<close> and at
  a drawn index of \<open>[0, i]\<close>.
\<close>

fun shuffle_from :: "nat \<Rightarrow> rand \<Rightarrow> nat \<Rightarrow> 'a list \<Rightarrow> 'a list" where
  "shuffle_from 0 rnd k xs = xs"
| "shuffle_from (Suc i) rnd k xs =
     (let j = rnd k mod (Suc i + 1)
      in shuffle_from i rnd (k + 1) (xs[Suc i := xs ! j, j := xs ! Suc i]))"

definition shuffle :: "rand \<Rightarrow> 'a list \<Rightarrow> 'a list" where
  "shuffle rnd xs = shuffle_from (length xs - 1) rnd 0 xs"

text \<open>
  \<open>Game.create_answer_buttons\<close> and \<open>Game.create_new_problem\<close>. Each source of random
  draws has its own oracle: the problem, its wrong answers, the shuffle.
\<close>

definition create_answer_buttons :: "rand \<Rightarrow> rand \<Rightarrow> game \<Rightarrow> (error + game) option" where
  "create_answer_buttons rnd_wrong rnd_shuffle g =
     (case current_problem g of
        None \<Rightarrow> Some (Inl AttributeError)
      | Some p \<Rightarrow>
          (case generate_wrong_answers p 3 rnd_wrong of
             None \<Rightarrow> None
           | Some (Inl e) \<Rightarrow> Some (Inl e)
           | Some (Inr wrong_answers) \<Rightarrow>
               (let correct = correct_answer p;
                    answers = shuffle rnd_shuffle (wrong_answers @ [correct])
                in Some (Inr (g\<lparr>answer_buttons := map (\<lambda>a. (a, a = correct)) answers\<rparr>)))))"

definition create_new_problem :: "rand \<Rightarrow> rand \<Rightarrow> rand \<Rightarrow> game \<Rightarrow> (error + game) option" where
  "create_new_problem rnd_problem rnd_wrong rnd_shuffle g =
     (case generate (min 15 (max 1 (level g))) rnd_problem of
        Inl e \<Rightarrow> Some (Inl e)
      | Inr p \<Rightarrow> create_answer_buttons rnd_wrong rnd_shuffle (g\<lparr>current_problem := Some p\<rparr>))"

text \<open>
  \<open>Game.spawn_enemies\<close>. \<open>spawn_position\<close> is the \<open>while True\<close> loop that draws a position
  until it is outside the safe zone of the player; \<open>spawn_loop\<close> is the \<open>for\<close> loop.
\<close>

partial_function (option) spawn_position ::
  "player \<Rightarrow> rand \<Rightarrow> nat \<Rightarrow> (error + (int \<times> int) \<times> nat) option" where
  "spawn_position pl rnd i =
     (case randint 50 (game_width - 50) (rnd i) of
        Inl e \<Rightarrow> Some (Inl e)
      | Inr x \<Rightarrow>
          (case randint 50 (game_height - 180) (rnd (i + 1)) of
             Inl e \<Rightarrow> Some (Inl e)
           | Inr y \<Rightarrow>
               (case math_sqrt ((real_of_int x - player_x pl)\<^sup>2
                                + (real_of_int y - player_y pl)\<^sup>2) of
                  Inl e \<Rightarrow> Some (Inl e)
                | Inr dist_to_player \<Rightarrow>
                    if dist_to_player > 150 then Some (Inr ((x, y), i + 2))
                    else spawn_position pl rnd (i + 2))))"

fun spawn_loop ::
  "nat \<Rightarrow> int \<Rightarrow> player \<Rightarrow> rand \<Rightarrow> nat \<Rightarrow> enemy list \<Rightarrow> (error + enemy list) option" where
  "spawn_loop 0 lvl pl rnd i es = Some (Inr es)"
| "spawn_loop (Suc n) lvl pl rnd i es =
     (case spawn_position pl rnd i of
        None \<Rightarrow> None
      | Some (Inl e) \<Rightarrow> Some (Inl e)
      | Some (Inr ((x, y), i')) \<Rightarrow>
          spawn_loop n lvl pl rnd (i' + 2)
            (es @ [Enemy_init (real_of_int x) (real_of_int y) lvl 30 (rnd i') (rnd (i' + 1))]))"

definition spawn_enemies :: "rand \<Rightarrow> game \<Rightarrow> (error + game) option" where
  "spawn_enemies rnd g =
     (let enemy_count = min (3 + level g div 2) 10
      in case spawn_loop (nat enemy_count) (level g) (player g) rnd 0 [] of
           None \<Rightarrow> None
         | Some (Inl e) \<Rightarrow> Some (Inl e)
         | Some (Inr es) \<Rightarrow> Some (Inr (g\<lparr>enemies := es\<rparr>)))"

text \<open>
  \<open>Game.handle_answer\<close> and \<open>Game.level_up\<close>. \<open>clear_enemies\<close> is the loop over the enemies:
  it hits every enemy that is alive and adds its bonus to the score.
\<close>

fun clear_enemies :: "enemy list \<Rightarrow> int \<Rightarrow> int \<Rightarrow> enemy list \<times> int" where
  "clear_enemies [] lvl sc = ([], sc)"
| "clear_enemies (e # es) lvl sc =
     (if is_alive e then
        (let hit = Enemy_hit e; rest = clear_enemies es lvl (sc + 5 * lvl)
         in (fst hit # fst rest, snd rest))
      else
        (let rest = clear_enemies es lvl sc in (e # fst rest, snd rest)))"

definition level_up :: "game \<Rightarrow> game" where
  "level_up g = g\<lparr>level := level g + 1\<rparr>"

definition handle_answer :: "bool \<Rightarrow> game \<Rightarrow> game" where
  "handle_answer is_correct g =
     (let g' =
        (if is_correct then
           (let g1 = g\<lparr>score := score g + 50 * level g, streak := streak g + 1\<rparr>;
                g2 = (if streak g1 > 1 then g1\<lparr>score := score g1 + 25 * streak g1\<rparr> else g1);
                cleared = clear_enemies (enemies g2) (level g2) (score g2);
                g3 = g2\<lparr>score := snd cleared, enemies := []\<rparr>
            in if streak g3 mod 3 = 0 then level_up g3 else g3)
         else g\<lparr>streak := 0\<rparr>)
      in g'\<lparr>state_timer := 0.8, state := LEVEL_TRANSITION\<rparr>)"

text \<open>
  \<open>Game.reset_game\<close>. \<open>reset_state\<close> is the game after the six assignments at the head of
  the method, which run before the two calls that may loop.
\<close>

definition reset_state :: "game \<Rightarrow> game" where
  "reset_state g =
     g\<lparr>score := 0, level := 1, streak := 0, enemies_killed := 0,
       player := Player_init (real_of_int (game_width div 2))
                   (real_of_int (game_height div 2)),
       bullets := []\<rparr>"

definition reset_game :: "rand \<Rightarrow> rand \<Rightarrow> rand \<Rightarrow> rand \<Rightarrow> game \<Rightarrow> (error + game) option" where
  "reset_game rnd_problem rnd_wrong rnd_shuffle rnd_spawn g =
     (case create_new_problem rnd_problem rnd_wrong rnd_shuffle (reset_state g) of
        None \<Rightarrow> None
      | Some (Inl e) \<Rightarrow> Some (Inl e)
      | Some (Inr g2) \<Rightarrow> spawn_enemies rnd_spawn g2)"

text \<open>
  Draws with which both loops end: the strategies \<open>correct + 1\<close>, \<open>correct - 1\<close> and
  \<open>- correct\<close> in turn, and the spawn position \<open>(50, 50)\<close>.
\<close>

definition draws_three_strategies :: rand where
  "draws_three_strategies = (\<lambda>k. if k = 0 then 8 else if k = 2 then 9 else 4)"

definition draws_corner_spawn :: rand where
  "draws_corner_spawn = (\<lambda>k. 0)"

text \<open>A game in play: level 4, a streak of 2, two enemies alive and one dead, one bullet.\<close>

definition sample_enemy :: "bool \<Rightarrow> enemy" where
  "sample_enemy alive =
     \<lparr>enemy_x = 200, enemy_y = 150, enemy_difficulty = 4, enemy_size = 30,
      enemy_health = 2, enemy_speed = 1.8, movement_type = Circular,
      enemy_direction = 0, movement_timer = 0, center_x = 200, center_y = 150,
      is_alive = alive, explosion_progress = 0\<rparr>"

definition sample_game :: game where
  "sample_game =
     \<lparr>state = PLAYING, score = 120, high_score = 500, level = 4, streak = 2,
      enemies_killed = 3, total_enemies_killed = 7, state_timer = 0,
      player = (Player_init 100 100)\<lparr>health := 1\<rparr>,
      bullets = [\<lparr>bullet_x = 100, bullet_y = 80, bullet_dx = 0, bullet_dy = - 12,
                  bullet_size = 6, bullet_active = True, trail = [], trail_length = 6\<rparr>],
      enemies = [sample_enemy True, sample_enemy False, sample_enemy True],
      current_problem = None, answer_buttons = []\<rparr>"

section \<open>Properties of the problem generator\<close>

lemma then_do_Inr [simp]: "then_do (Inr v) f = f v"
  by (simp add: then_do_def)

lemma then_do_Inl [simp]: "then_do (Inl e) f = Inl e"
  by (simp add: then_do_def)

lemma then_do_eq_Inr: "then_do m f = Inr v \<longleftrightarrow> (\<exists>u. m = Inr u \<and> f u = Inr v)"
  by (cases m) simp_all

lemma randint_bounds:
  assumes "randint a b r = Inr n"
  shows "a \<le> n \<and> n \<le> b"
proof -
  have ab: "a \<le> b" and n: "n = a + int (r mod nat (b - a + 1))"
    using assms by (simp_all add: randint_def split: if_splits)
  have "0 < nat (b - a + 1)" using ab by simp
  then have "r mod nat (b - a + 1) < nat (b - a + 1)" by simp
  then have "int (r mod nat (b - a + 1)) < b - a + 1" using ab by linarith
  then show ?thesis using n by simp
qed

text \<open>
  C8. A problem of difficulty 1 is generated without an exception and its operator is
  \<open>+\<close>, whatever the random draws are.
\<close>

theorem tier1_operator_is_plus:
  "\<exists>p. generate 1 rnd = Inr p \<and> operator p = Some Plus"
  by (simp add: generate_def max_difficulty_def generate_basic_arithmetic_def randint_def
      calculate_answer_def Let_def)

theorem tier1_operator_is_plus_witness:
  "\<exists>p. generate 1 (\<lambda>k. k + 2) = Inr p \<and> operator p = Some Plus"
  using tier1_operator_is_plus [of "\<lambda>k. k + 2"] by simp

lemma intermediate_divide:
  assumes gen: "generate_intermediate_arithmetic d rnd = Inr p"
    and opr: "operator p = Some Divide"
  shows "\<exists>n2 q. 2 \<le> n2 \<and> num1 p = Some (n2 * q) \<and> num2 p = Some n2
           \<and> correct_answer p = real_of_int q"
proof -
  define opr where "opr = (if d \<le> 4 then choice [Plus, Minus, Times] (rnd 1)
                   else choice [Plus, Minus, Times, Divide] (rnd 1))"
  have "then_do (randint 2 (8 * d) (rnd 0)) (\<lambda>n1.
          then_do
             (if opr = Plus \<or> opr = Minus then
                then_do (randint 1 (8 * d) (rnd 2)) (\<lambda>n2.
                  if opr = Minus \<and> n2 > n1 then Inr (n2, n1) else Inr (n1, n2))
              else if opr = Times then
                then_do (randint 2 (8 * d div 2) (rnd 2)) (\<lambda>n2. Inr (n1, n2))
              else if opr = Divide then
                then_do (randint 2 (8 * d div 2) (rnd 2)) (\<lambda>n2.
                then_do (randint 1 10 (rnd 3)) (\<lambda>q. Inr (n2 * q, n2)))
              else Inl AttributeError)
             (\<lambda>(a, b).
                then_do (calculate_answer (Some opr) a b) (\<lambda>c.
                  Inr \<lparr>difficulty = d, num1 = Some a, num2 = Some b, num3 = None,
                       operator = Some opr, correct_answer = c\<rparr>))) = Inr p"
    using gen unfolding generate_intermediate_arithmetic_def Let_def opr_def .
  then obtain n1 ab c where
    ab: "(if opr = Plus \<or> opr = Minus then
                then_do (randint 1 (8 * d) (rnd 2)) (\<lambda>n2.
                  if opr = Minus \<and> n2 > n1 then Inr (n2, n1) else Inr (n1, n2))
              else if opr = Times then
                then_do (randint 2 (8 * d div 2) (rnd 2)) (\<lambda>n2. Inr (n1, n2))
              else if opr = Divide then
                then_do (randint 2 (8 * d div 2) (rnd 2)) (\<lambda>n2.
                then_do (randint 1 10 (rnd 3)) (\<lambda>q. Inr (n2 * q, n2)))
              else Inl AttributeError) = Inr ab"
    and c: "calculate_answer (Some opr) (fst ab) (snd ab) = Inr c"
    and p: "p = \<lparr>difficulty = d, num1 = Some (fst ab), num2 = Some (snd ab), num3 = None,
                       operator = Some opr, correct_answer = c\<rparr>"
    by (auto simp: then_do_eq_Inr)
  have div: "opr = Divide" using opr p by simp
  with ab obtain n2 q where n2: "randint 2 (8 * d div 2) (rnd 2) = Inr n2"
    and q: "randint 1 10 (rnd 3) = Inr q" and ab': "ab = (n2 * q, n2)"
    by (auto simp: then_do_eq_Inr)
  have "2 \<le> n2" using randint_bounds [OF n2] by simp
  moreover have "c = real_of_int q"
    using c div ab' \<open>2 \<le> n2\<close> by (simp add: calculate_answer_def)
  ultimately show ?thesis using p ab' by simp
qed

text \<open>
  C5. A problem generated at difficulty 4 to 6 whose operator is the division sign has a
  dividend \<open>num1\<close> that is a multiple of its divisor \<open>num2\<close> (which is not zero), and its
  answer is the integer quotient \<open>num1 // num2\<close>.
\<close>

theorem division_exact:
  assumes "4 \<le> d" "d \<le> 6" "generate d rnd = Inr p" "operator p = Some Divide"
  shows "\<exists>n1 n2. num1 p = Some n1 \<and> num2 p = Some n2 \<and> n2 \<noteq> 0 \<and> n1 mod n2 = 0
           \<and> correct_answer p = real_of_int (n1 div n2)"
proof -
  have "generate_intermediate_arithmetic d rnd = Inr p"
    using assms(1-3) by (simp add: generate_def max_difficulty_def)
  from intermediate_divide [OF this assms(4)] show ?thesis by auto
qed

theorem division_exact_witness:
  "\<exists>p. generate 5 (\<lambda>k. 3) = Inr p \<and> operator p = Some Divide
       \<and> num1 p = Some 20 \<and> num2 p = Some 5 \<and> correct_answer p = 4"
  using division_exact [of 5 "\<lambda>k. 3"]
  by (simp add: generate_def max_difficulty_def generate_intermediate_arithmetic_def Let_def
      randint_def choice_def calculate_answer_def)

text \<open>
  C4. The quadratic branch reports the root of smaller absolute value, which need not be
  the smaller root: with the draws that give the roots \<open>x1 = -5\<close> and \<open>x2 = 1\<close> at
  difficulty 13, the answer stored is \<open>1\<close>, while the smaller root is \<open>-5\<close>.
\<close>

theorem quadratic_answer_not_smaller_root:
  "generate 13 (\<lambda>k. if k = 0 then 2 else if k = 1 then 0 else 6) = Inr (answer_only 13 1)
   \<and> randint 1 5 2 = Inr 3 \<and> randint (- 5) 5 0 = Inr (- 5) \<and> randint (- 5) 5 6 = Inr 1
   \<and> quadratic_answer (- 5) 1 = 1 \<and> min (- 5 :: int) 1 = - 5"
  by (simp add: generate_def max_difficulty_def generate_advanced_math_def randint_def
      quadratic_answer_def)

section \<open>Properties of the wrong answers\<close>

lemma length_strategies [simp]: "length (strategies p) = 13"
  by (simp add: strategies_def Let_def)

lemma not_acceptable_zero: "\<not> acceptable 0 ws w"
  by (auto simp add: acceptable_def)

lemma generate_5_minus_5:
  "generate 2 (\<lambda>k. if k = 2 then 1 else 4) = Inr problem_5_minus_5"
  by (simp add: generate_def max_difficulty_def generate_basic_arithmetic_def Let_def
      randint_def choice_def calculate_answer_def problem_5_minus_5_def)

lemma generate_3_plus_4: "generate 1 (\<lambda>k. k + 2) = Inr problem_3_plus_4"
  by (simp add: generate_def max_difficulty_def generate_basic_arithmetic_def Let_def
      randint_def calculate_answer_def problem_3_plus_4_def)

lemma strategies_5_minus_5:
  assumes "k < 13"
  shows "\<exists>w. (strategies problem_5_minus_5 ! k) r = Inr w"
proof -
  have "k = 0 \<or> k = 1 \<or> k = 2 \<or> k = 3 \<or> k = 4 \<or> k = 5 \<or> k = 6 \<or> k = 7 \<or> k = 8
        \<or> k = 9 \<or> k = 10 \<or> k = 11 \<or> k = 12"
    using assms by presburger
  then show ?thesis
    by (auto simp: strategies_def problem_5_minus_5_def py_int_def randint_def
        operand_confusion_def)
qed

lemma strategy_loop_5_minus_5:
  assumes "strategy_loop problem_5_minus_5 count rnd i [] = Some y" and "0 < count"
  shows False
proof -
  have "problem_5_minus_5 = problem_5_minus_5 \<and> [] = ([]::real list) \<and> 0 < count
        \<longrightarrow> False"
  proof (rule strategy_loop.raw_induct
      [where P = "\<lambda>p count rnd i ws y. p = problem_5_minus_5 \<and> ws = [] \<and> 0 < count
                    \<longrightarrow> False",
        OF _ assms(1)], goal_cases)
    case (1 loop p count rnd i ws y)
    show ?case
    proof
      assume a: "p = problem_5_minus_5 \<and> ws = [] \<and> 0 < count"
      have "rnd i mod 13 < 13" by simp
      from strategies_5_minus_5 [OF this] obtain wrong where
        w: "choice (strategies p) (rnd i) (rnd (i + 1)) = Inr wrong"
        using a by (auto simp: choice_def)
      have "correct_answer p = 0" using a by (simp add: problem_5_minus_5_def)
      then have "loop p count rnd (i + 2) [] = Some y"
        using 1(2) a w by (simp add: not_acceptable_zero)
      then show False using 1(1) a by blast
    qed
  qed
  then show False using assms(2) by simp
qed

text \<open>
  C1. The problem \<open>5 - 5\<close>, which \<open>generate\<close> produces at difficulty 2, has the answer 0,
  and \<open>generate_wrong_answers\<close> with \<open>count = 3\<close> never returns on it, whatever the random
  draws are: the first loop accepts no candidate and never ends.
\<close>

theorem wrong_answers_diverge_at_zero:
  "generate 2 (\<lambda>k. if k = 2 then 1 else 4) = Inr problem_5_minus_5
   \<and> correct_answer problem_5_minus_5 = 0
   \<and> generate_wrong_answers problem_5_minus_5 3 rnd = None"
proof -
  have "strategy_loop problem_5_minus_5 3 rnd 0 [] = None"
    using strategy_loop_5_minus_5 [of 3 rnd 0]
    by (cases "strategy_loop problem_5_minus_5 3 rnd 0 []") auto
  then show ?thesis
    using generate_5_minus_5
    by (simp add: generate_wrong_answers_def problem_5_minus_5_def)
qed

theorem wrong_answers_diverge_at_zero_witness:
  "generate_wrong_answers problem_5_minus_5 3 (\<lambda>k. k) = None"
  using wrong_answers_diverge_at_zero [of "\<lambda>k. k"] by simp

lemma strategy_loop_inv:
  assumes "strategy_loop p count rnd i ws = Some y"
  shows "answers_inv (correct_answer p) count ws \<longrightarrow>
        (\<forall>ws' i'. y = Inr (ws', i') \<longrightarrow> answers_inv (correct_answer p) count ws')"
proof (rule strategy_loop.raw_induct
      [where P = "\<lambda>p count rnd i ws y. answers_inv (correct_answer p) count ws \<longrightarrow>
        (\<forall>ws' i'. y = Inr (ws', i') \<longrightarrow> answers_inv (correct_answer p) count ws')",
        OF _ assms], goal_cases)
  case (1 loop p count rnd i ws y)
  show ?case
  proof (intro impI allI)
    fix ws' i'
    assume inv: "answers_inv (correct_answer p) count ws" and y: "y = Inr (ws', i')"
    show "answers_inv (correct_answer p) count ws'"
    proof (cases "int (length ws) < count \<and> length ws < length (strategies p)")
      case False
      then show ?thesis using 1(2) inv y by (auto split: if_splits)
    next
      case True
      show ?thesis
      proof (cases "choice (strategies p) (rnd i) (rnd (i + 1))")
        case (Inl e)
        then show ?thesis using 1(2) True y by simp
      next
        case (Inr wrong)
        define ws2 where "ws2 = (if acceptable (correct_answer p) ws wrong
                then List.insert wrong ws else ws)"
        have "loop p count rnd (i + 2) ws2 = Some y"
          using 1(2) True Inr by (simp add: ws2_def)
        moreover have "answers_inv (correct_answer p) count ws2"
          using inv True by (auto simp: ws2_def acceptable_def Let_def answers_inv_def)
        ultimately show ?thesis using 1(1) y by blast
      qed
    qed
  qed
qed

lemma fallback_loop_inv:
  assumes "fallback_loop p count rnd i ws = Some y"
  shows "answers_inv (correct_answer p) count ws \<longrightarrow>
        (\<forall>ws' i'. y = Inr (ws', i') \<longrightarrow>
           answers_inv (correct_answer p) count ws' \<and> count \<le> int (length ws'))"
proof (rule fallback_loop.raw_induct
      [where P = "\<lambda>p count rnd i ws y. answers_inv (correct_answer p) count ws \<longrightarrow>
        (\<forall>ws' i'. y = Inr (ws', i') \<longrightarrow>
           answers_inv (correct_answer p) count ws' \<and> count \<le> int (length ws'))",
        OF _ assms], goal_cases)
  case (1 loop p count rnd i ws y)
  show ?case
  proof (intro impI allI)
    fix ws' i'
    assume inv: "answers_inv (correct_answer p) count ws" and y: "y = Inr (ws', i')"
    show "answers_inv (correct_answer p) count ws' \<and> count \<le> int (length ws')"
    proof (cases "int (length ws) < count")
      case False
      then show ?thesis using 1(2) inv y by (auto split: if_splits)
    next
      case True
      show ?thesis
      proof (cases "fallback_draw (correct_answer p) (rnd i)")
        case (Inl e)
        then show ?thesis using 1(2) True y by simp
      next
        case (Inr wrong)
        define ws2 where "ws2 = (if wrong \<noteq> correct_answer p \<and> wrong \<notin> set ws
                then List.insert wrong ws else ws)"
        have "loop p count rnd (i + 1) ws2 = Some y"
          using 1(2) True Inr by (simp add: ws2_def)
        moreover have "answers_inv (correct_answer p) count ws2"
          using inv True by (auto simp: ws2_def answers_inv_def)
        ultimately show ?thesis using 1(1) y by blast
      qed
    qed
  qed
qed

lemma wrong_answers_3_plus_4:
  "generate_wrong_answers problem_3_plus_4 3 (\<lambda>k. k) = Some (Inr [- 7, 14, 9])"
  apply (simp add: generate_wrong_answers_def)
  apply (subst strategy_loop.simps)
  apply (simp add: choice_def)
  apply (simp add: strategies_def problem_3_plus_4_def acceptable_def randint_def py_int_def)
  apply (subst strategy_loop.simps)
  apply (simp add: choice_def)
  apply (simp add: strategies_def problem_3_plus_4_def acceptable_def randint_def py_int_def)
  apply (subst strategy_loop.simps)
  apply (simp add: choice_def)
  apply (simp add: strategies_def problem_3_plus_4_def acceptable_def randint_def py_int_def)
  apply (subst strategy_loop.simps)
  apply (simp add: choice_def)
  apply (subst fallback_loop.simps)
  apply simp
  done

lemma wrong_answers_shape_int:
  assumes "generate_wrong_answers p count rnd = Some (Inr ws)"
  shows "int (length ws) = max 0 count \<and> distinct ws \<and> correct_answer p \<notin> set ws"
proof -
  from assms obtain ws1 i where
    l1: "strategy_loop p count rnd 0 [] = Some (Inr (ws1, i))"
    by (auto simp: generate_wrong_answers_def split: option.splits sum.splits)
  with assms obtain j where
    l2: "fallback_loop p count rnd i ws1 = Some (Inr (ws, j))"
    by (auto simp: generate_wrong_answers_def split: option.splits sum.splits)
  have "answers_inv (correct_answer p) count []" by (simp add: answers_inv_def)
  with strategy_loop_inv [OF l1] have "answers_inv (correct_answer p) count ws1" by blast
  with fallback_loop_inv [OF l2]
  have "answers_inv (correct_answer p) count ws \<and> count \<le> int (length ws)" by blast
  then show ?thesis by (auto simp: answers_inv_def)
qed

text \<open>
  C2. Whenever \<open>generate_wrong_answers\<close> returns a list for a count \<open>n\<close> of answers, the
  list holds exactly \<open>n\<close> values, they are pairwise distinct, and none of them is the
  correct answer.
\<close>

theorem wrong_answers_shape:
  assumes "generate_wrong_answers p (int n) rnd = Some (Inr ws)"
  shows "length ws = n \<and> distinct ws \<and> correct_answer p \<notin> set ws"
  using wrong_answers_shape_int [OF assms] by simp

theorem wrong_answers_shape_witness:
  "generate_wrong_answers problem_3_plus_4 (int 3) (\<lambda>k. k) = Some (Inr [- 7, 14, 9])
   \<and> length [- 7, 14, 9 :: real] = 3 \<and> distinct [- 7, 14, 9 :: real]
   \<and> correct_answer problem_3_plus_4 \<notin> set [- 7, 14, 9]"
proof -
  have r: "generate_wrong_answers problem_3_plus_4 (int 3) (\<lambda>k. k) = Some (Inr [- 7, 14, 9])"
    using wrong_answers_3_plus_4 by simp
  from wrong_answers_shape [OF r] r show ?thesis by simp
qed

text \<open>
  The parameter \<open>count\<close> is a Python integer. For a negative one neither loop runs and the
  empty list is returned.
\<close>

lemma wrong_answers_negative_count:
  "generate_wrong_answers p count rnd = Some (Inr ws) \<Longrightarrow> count < 0 \<Longrightarrow> ws = []"
  using wrong_answers_shape_int [of p count rnd ws] by simp

text \<open>
  An answer above 9 that is not a whole number (the circumference 12.57 of a circle of
  radius 2, at difficulty 13 to 15) makes the digit reversal raise ValueError when that
  strategy is drawn.
\<close>

lemma wrong_answers_raise_on_float:
  "generate_wrong_answers (answer_only 13 12.57) 3 (\<lambda>k. 10) = Some (Inl ValueError)"
  apply (simp add: generate_wrong_answers_def)
  apply (subst strategy_loop.simps)
  apply (simp add: choice_def)
  apply (simp add: strategies_def answer_only_def Let_def)
  done

section \<open>Properties of the entities\<close>

lemma Bullet_init_zero:
  "Bullet_init x y (0, 0) speed sz =
     Inr \<lparr>bullet_x = x, bullet_y = y, bullet_dx = 0, bullet_dy = - speed,
          bullet_size = sz, bullet_active = True, trail = [], trail_length = 6\<rparr>"
  by (simp add: Bullet_init_def math_sqrt_def)

lemma Bullet_init_nonzero:
  assumes "direction \<noteq> (0, 0)"
  shows "Bullet_init x y direction speed sz =
     Inr \<lparr>bullet_x = x, bullet_y = y,
          bullet_dx = fst direction / sqrt ((fst direction)\<^sup>2 + (snd direction)\<^sup>2) * speed,
          bullet_dy = snd direction / sqrt ((fst direction)\<^sup>2 + (snd direction)\<^sup>2) * speed,
          bullet_size = sz, bullet_active = True, trail = [], trail_length = 6\<rparr>"
proof -
  define len where "len = sqrt ((fst direction)\<^sup>2 + (snd direction)\<^sup>2)"
  have "(fst direction)\<^sup>2 + (snd direction)\<^sup>2 > 0"
    using assms by (cases direction) (auto simp: sum_power2_gt_zero_iff)
  then have "len > 0" unfolding len_def by (rule real_sqrt_gt_zero)
  moreover have "math_sqrt ((fst direction)\<^sup>2 + (snd direction)\<^sup>2) = Inr len"
    by (simp add: math_sqrt_def len_def not_less)
  ultimately show ?thesis
    unfolding Bullet_init_def len_def [symmetric] by (simp add: fdiv_def)
qed

lemma Bullet_init_total: "\<exists>b. Bullet_init x y direction speed sz = Inr b"
  by (cases "direction = (0, 0)") (simp_all add: Bullet_init_zero Bullet_init_nonzero)

lemma clamp_bounds: "lo \<le> hi \<Longrightarrow> lo \<le> clamp v lo hi \<and> clamp v lo hi \<le> hi"
  by (simp add: clamp_def)

text \<open>
  C6. For a player of the size the constructor gives (20), \<open>Player.update\<close> raises no
  exception and, for any keys pressed and any delta time, leaves the player within
  \<open>[size, WINDOW_WIDTH - size]\<close> horizontally and \<open>[size, WINDOW_HEIGHT - size]\<close>
  vertically; the size is unchanged.
\<close>

theorem player_stays_in_arena:
  assumes "player_size p = 20"
  shows "\<exists>p' b. Player_update delta_time keys_pressed p = Inr (p', b)
           \<and> player_size p' \<le> player_x p' \<and> player_x p' \<le> WINDOW_WIDTH - player_size p'
           \<and> player_size p' \<le> player_y p' \<and> player_y p' \<le> WINDOW_HEIGHT - player_size p'
           \<and> player_size p' = 20"
proof -
  have w: "player_size p \<le> WINDOW_WIDTH - player_size p"
    and h: "player_size p \<le> WINDOW_HEIGHT - player_size p"
    using assms by (simp_all add: WINDOW_WIDTH_def WINDOW_HEIGHT_def)
  show ?thesis
  proof (cases "keys_pressed K_SPACE \<and> shoot_timer p - delta_time \<le> 0")
    case True
    show ?thesis
      using clamp_bounds [OF w] clamp_bounds [OF h] assms True Bullet_init_total
      unfolding Player_update_def Let_def
      by (auto simp: then_do_eq_Inr)
  next
    case False
    then show ?thesis
      using clamp_bounds [OF w] clamp_bounds [OF h] assms
      by (auto simp add: Player_update_def Let_def)
  qed
qed

theorem player_stays_in_arena_witness:
  "player_size (Player_init 450 350) = 20
   \<and> (\<exists>p' b. Player_update (1 / 60) (\<lambda>k. True) (Player_init 450 350) = Inr (p', b)
           \<and> player_size p' \<le> player_x p' \<and> player_x p' \<le> WINDOW_WIDTH - player_size p'
           \<and> player_size p' \<le> player_y p' \<and> player_y p' \<le> WINDOW_HEIGHT - player_size p'
           \<and> player_size p' = 20)"
  using player_stays_in_arena [of "Player_init 450 350" "1 / 60" "\<lambda>k. True"]
  by (simp add: Player_init_def)

lemma Enemy_move_size [simp]: "enemy_size (Enemy_move delta_time rnd e) = enemy_size e"
  by (simp add: Enemy_move_def Let_def)

lemma Enemy_bounce_right:
  assumes "2 * enemy_size m \<le> WINDOW_WIDTH" "enemy_x m > WINDOW_WIDTH - enemy_size m"
  shows "enemy_x (Enemy_bounce m) = WINDOW_WIDTH - enemy_size m
       \<and> enemy_direction (Enemy_bounce m) =
           (if enemy_size m \<le> enemy_y m \<and> enemy_y m \<le> WINDOW_HEIGHT - enemy_size m
            then pi - enemy_direction m else - (pi - enemy_direction m))"
proof -
  have "\<not> enemy_x m < enemy_size m" using assms by linarith
  then show ?thesis using assms(2) by (simp add: Enemy_bounce_def Let_def not_less)
qed

text \<open>
  C7, as the code has it. For an enemy that is alive and no wider than half the arena (every
  enemy spawned has size 30), of any movement pattern: if the movement block of
  \<open>Enemy.update\<close> leaves \<open>x\<close> beyond \<open>WINDOW_WIDTH - size\<close>, then after the update
  \<open>x\<close> is \<open>WINDOW_WIDTH - size\<close>, the heading is \<open>pi - direction\<close> when \<open>y\<close> is within
  \<open>[size, WINDOW_HEIGHT - size]\<close> and \<open>- (pi - direction)\<close> when \<open>y\<close> is outside too (the
  vertical bounce of the same update negates it), and in both cases the horizontal heading
  component \<open>cos direction\<close> is negated.
\<close>

theorem enemy_right_bounce:
  assumes "is_alive e" "2 * enemy_size e \<le> WINDOW_WIDTH"
    and "enemy_x (Enemy_move delta_time rnd e) > WINDOW_WIDTH - enemy_size e"
  shows "enemy_x (Enemy_update delta_time rnd e) = WINDOW_WIDTH - enemy_size e
       \<and> enemy_direction (Enemy_update delta_time rnd e) =
           (if enemy_size e \<le> enemy_y (Enemy_move delta_time rnd e)
               \<and> enemy_y (Enemy_move delta_time rnd e) \<le> WINDOW_HEIGHT - enemy_size e
            then pi - enemy_direction (Enemy_move delta_time rnd e)
            else - (pi - enemy_direction (Enemy_move delta_time rnd e)))
       \<and> cos (enemy_direction (Enemy_update delta_time rnd e)) =
           - cos (enemy_direction (Enemy_move delta_time rnd e))"
proof -
  define m where "m = Enemy_move delta_time rnd e"
  have u: "Enemy_update delta_time rnd e = Enemy_bounce m"
    using assms(1) by (simp add: Enemy_update_def m_def)
  have "2 * enemy_size m \<le> WINDOW_WIDTH" "enemy_x m > WINDOW_WIDTH - enemy_size m"
    using assms(2,3) by (simp_all add: m_def)
  from Enemy_bounce_right [OF this] show ?thesis
    unfolding u m_def [symmetric] by (auto simp: m_def)
qed

lemma corner_move:
  "Enemy_move (1 / 60) (\<lambda>k. 500) corner_enemy =
     corner_enemy\<lparr>movement_timer := 1 / 60, enemy_x := 870 + sqrt 2 / 2 * 1.2,
                  enemy_y := 670 + sqrt 2 / 2 * 1.2\<rparr>"
  by (simp add: Enemy_move_def corner_enemy_def random_unit_def cos_45 sin_45)

lemma corner_facts:
  "is_alive corner_enemy"
  "2 * enemy_size corner_enemy \<le> WINDOW_WIDTH"
  "enemy_x (Enemy_move (1 / 60) (\<lambda>k. 500) corner_enemy) > WINDOW_WIDTH - enemy_size corner_enemy"
  "\<not> (enemy_size corner_enemy \<le> enemy_y (Enemy_move (1 / 60) (\<lambda>k. 500) corner_enemy)
      \<and> enemy_y (Enemy_move (1 / 60) (\<lambda>k. 500) corner_enemy)
          \<le> WINDOW_HEIGHT - enemy_size corner_enemy)"
  "enemy_direction (Enemy_move (1 / 60) (\<lambda>k. 500) corner_enemy) = pi / 4"
proof -
  have s: "0 < sqrt 2 / 2 * (1.2::real)" by simp
  show "is_alive corner_enemy" by (simp add: corner_enemy_def)
  show "2 * enemy_size corner_enemy \<le> WINDOW_WIDTH"
    by (simp add: corner_enemy_def WINDOW_WIDTH_def)
  have sz: "enemy_size corner_enemy = 30" by (simp add: corner_enemy_def)
  have mx: "enemy_x (Enemy_move (1 / 60) (\<lambda>k. 500) corner_enemy) = 870 + sqrt 2 / 2 * 1.2"
    and my: "enemy_y (Enemy_move (1 / 60) (\<lambda>k. 500) corner_enemy) = 670 + sqrt 2 / 2 * 1.2"
    unfolding corner_move by (simp_all add: corner_enemy_def)
  show "enemy_x (Enemy_move (1 / 60) (\<lambda>k. 500) corner_enemy)
          > WINDOW_WIDTH - enemy_size corner_enemy"
    using s unfolding mx sz WINDOW_WIDTH_def by linarith
  show "\<not> (enemy_size corner_enemy \<le> enemy_y (Enemy_move (1 / 60) (\<lambda>k. 500) corner_enemy)
      \<and> enemy_y (Enemy_move (1 / 60) (\<lambda>k. 500) corner_enemy)
          \<le> WINDOW_HEIGHT - enemy_size corner_enemy)"
    using s unfolding my sz WINDOW_HEIGHT_def by linarith
  show "enemy_direction (Enemy_move (1 / 60) (\<lambda>k. 500) corner_enemy) = pi / 4"
    unfolding corner_move by (simp add: corner_enemy_def)
qed

theorem enemy_right_bounce_witness:
  "is_alive corner_enemy \<and> 2 * enemy_size corner_enemy \<le> WINDOW_WIDTH
   \<and> enemy_x (Enemy_move (1 / 60) (\<lambda>k. 500) corner_enemy) > WINDOW_WIDTH - enemy_size corner_enemy
   \<and> enemy_x (Enemy_update (1 / 60) (\<lambda>k. 500) corner_enemy) = WINDOW_WIDTH - enemy_size corner_enemy
   \<and> enemy_direction (Enemy_update (1 / 60) (\<lambda>k. 500) corner_enemy) = - (pi - pi / 4)
   \<and> cos (enemy_direction (Enemy_update (1 / 60) (\<lambda>k. 500) corner_enemy)) = - cos (pi / 4)"
  using enemy_right_bounce [OF corner_facts(1-3)] corner_facts
  by auto

text \<open>
  C7, as it is stated, fails in a corner: an enemy at \<open>(870, 670)\<close> heading \<open>pi / 4\<close> leaves
  the arena to the right and at the bottom in one update, and its heading after the update
  is \<open>- (pi - pi / 4)\<close>, not \<open>pi - pi / 4\<close>.
\<close>

theorem enemy_corner_bounce:
  "is_alive corner_enemy
   \<and> enemy_x (Enemy_move (1 / 60) (\<lambda>k. 500) corner_enemy) > WINDOW_WIDTH - enemy_size corner_enemy
   \<and> enemy_direction (Enemy_update (1 / 60) (\<lambda>k. 500) corner_enemy)
       \<noteq> pi - enemy_direction (Enemy_move (1 / 60) (\<lambda>k. 500) corner_enemy)"
proof -
  define m where "m = Enemy_move (1 / 60) (\<lambda>k. 500) corner_enemy"
  have u: "Enemy_update (1 / 60) (\<lambda>k. 500) corner_enemy = Enemy_bounce m"
    unfolding Enemy_update_def m_def using corner_facts(1) by simp
  have sz: "enemy_size m = enemy_size corner_enemy" by (simp add: m_def)
  have md: "enemy_direction m = pi / 4" using corner_facts(5) by (simp only: m_def)
  have "enemy_direction (Enemy_bounce m) = - (pi - enemy_direction m)"
    using Enemy_bounce_right [of m] corner_facts(2-4)
    unfolding sz m_def [symmetric] by (simp only: if_False simp_thms)
  then have "enemy_direction (Enemy_bounce m) = - (pi - pi / 4)" by (simp only: md)
  moreover have "- (pi - pi / 4) \<noteq> pi - pi / 4" by simp
  ultimately have "enemy_direction (Enemy_bounce m) \<noteq> pi - enemy_direction m"
    by (simp only: md simp_thms)
  then show ?thesis
    unfolding u m_def [symmetric] using corner_facts(1,3) by (simp only: m_def simp_thms)
qed

section \<open>Properties of the game\<close>

lemma clear_enemies_score:
  "snd (clear_enemies es lvl sc) = sc + 5 * lvl * int (length (filter is_alive es))"
  by (induction es arbitrary: sc) (simp_all add: Let_def algebra_simps)

text \<open>
  C3. A correct answer, given at level \<open>L\<close> with streak \<open>s\<close> (in any state, so also in
  PLAYING), adds to the score \<open>50 * L\<close>, the streak bonus \<open>25 * (s + 1)\<close> when \<open>s + 1 > 1\<close>,
  and \<open>5 * L\<close> for every enemy alive; the streak becomes \<open>s + 1\<close>, the enemy list is
  emptied, the level grows by exactly 1 if and only if \<open>(s + 1) mod 3 = 0\<close>, and the state
  is LEVEL_TRANSITION.
\<close>

theorem correct_answer_effects:
  "score (handle_answer True g) =
     score g + 50 * level g + (if streak g + 1 > 1 then 25 * (streak g + 1) else 0)
       + 5 * level g * int (length (filter is_alive (enemies g)))
   \<and> streak (handle_answer True g) = streak g + 1
   \<and> enemies (handle_answer True g) = []
   \<and> level (handle_answer True g) = (if (streak g + 1) mod 3 = 0 then level g + 1 else level g)
   \<and> state (handle_answer True g) = LEVEL_TRANSITION"
  by (simp add: handle_answer_def Let_def level_up_def clear_enemies_score)

theorem correct_answer_effects_witness:
  "score (handle_answer True sample_game) = 120 + 200 + 75 + 40
   \<and> streak (handle_answer True sample_game) = 3
   \<and> enemies (handle_answer True sample_game) = []
   \<and> level (handle_answer True sample_game) = 5
   \<and> state (handle_answer True sample_game) = LEVEL_TRANSITION"
  using correct_answer_effects [of sample_game]
  by (simp add: sample_game_def sample_enemy_def)

lemma create_answer_buttons_frame:
  assumes "create_answer_buttons rw rs g = Some (Inr g')"
  shows "\<exists>bs. g' = g\<lparr>answer_buttons := bs\<rparr>"
  using assms
  by (auto simp: create_answer_buttons_def Let_def split: option.splits sum.splits)

lemma create_new_problem_frame:
  assumes "create_new_problem rp rw rs g = Some (Inr g')"
  shows "\<exists>p bs. g' = g\<lparr>current_problem := p, answer_buttons := bs\<rparr>"
  using assms
  by (auto simp: create_new_problem_def split: sum.splits dest!: create_answer_buttons_frame)

lemma spawn_enemies_frame:
  assumes "spawn_enemies re g = Some (Inr g')"
  shows "\<exists>es. g' = g\<lparr>enemies := es\<rparr>"
  using assms
  by (auto simp: spawn_enemies_def Let_def split: option.splits sum.splits)

lemma reset_state_fields:
  "score (reset_state g) = 0 \<and> level (reset_state g) = 1 \<and> streak (reset_state g) = 0
   \<and> enemies_killed (reset_state g) = 0
   \<and> player (reset_state g) = Player_init 450 350 \<and> bullets (reset_state g) = []
   \<and> high_score (reset_state g) = high_score g
   \<and> total_enemies_killed (reset_state g) = total_enemies_killed g"
  by (simp add: reset_state_def game_width_def game_height_def)

lemma reset_game_frame:
  assumes "reset_game rnd_problem rnd_wrong rnd_shuffle rnd_spawn g = Some (Inr g')"
  shows "\<exists>p bs es. g' = (reset_state g)\<lparr>current_problem := p, answer_buttons := bs,
                                          enemies := es\<rparr>"
proof -
  from assms obtain g2 where
    c: "create_new_problem rnd_problem rnd_wrong rnd_shuffle (reset_state g) = Some (Inr g2)"
    and s: "spawn_enemies rnd_spawn g2 = Some (Inr g')"
    unfolding reset_game_def by (auto split: option.splits sum.splits)
  from create_new_problem_frame [OF c] spawn_enemies_frame [OF s]
  show ?thesis by auto
qed

lemma generate_tier1_answer:
  "\<exists>p. generate 1 rnd = Inr p \<and> 2 \<le> correct_answer p"
  by (simp add: generate_def max_difficulty_def generate_basic_arithmetic_def randint_def
      calculate_answer_def Let_def)

lemma wrong_answers_three_strategies:
  assumes "2 \<le> correct_answer p"
  shows "generate_wrong_answers p 3 draws_three_strategies
           = Some (Inr [- correct_answer p, correct_answer p - 1, correct_answer p + 1])"
proof -
  have s8: "(strategies p ! 8) r = Inr (correct_answer p + 1)"
    and s9: "(strategies p ! 9) r = Inr (correct_answer p - 1)"
    and s4: "(strategies p ! 4) r = Inr (- correct_answer p)" for r
    by (simp_all add: strategies_def Let_def)
  have a1: "acceptable (correct_answer p) [] (correct_answer p + 1)"
    using assms by (simp add: acceptable_def Let_def)
  have a2: "acceptable (correct_answer p) [correct_answer p + 1] (correct_answer p - 1)"
    using assms by (simp add: acceptable_def Let_def)
  have a3: "acceptable (correct_answer p) [correct_answer p - 1, correct_answer p + 1]
              (- correct_answer p)"
    using assms by (simp add: acceptable_def Let_def)
  have d: "draws_three_strategies 0 = 8" "draws_three_strategies 2 = 9"
    "draws_three_strategies 4 = 4"
    by (simp_all add: draws_three_strategies_def)
  have l3: "strategy_loop p 3 draws_three_strategies 6
              [- correct_answer p, correct_answer p - 1, correct_answer p + 1]
            = Some (Inr ([- correct_answer p, correct_answer p - 1, correct_answer p + 1], 6))"
    by (subst strategy_loop.simps) simp
  have n3: "- correct_answer p \<noteq> correct_answer p - 1" "- correct_answer p \<noteq> correct_answer p + 1"
    using assms by simp_all
  have l2: "strategy_loop p 3 draws_three_strategies 4 [correct_answer p - 1, correct_answer p + 1]
            = Some (Inr ([- correct_answer p, correct_answer p - 1, correct_answer p + 1], 6))"
    by (subst strategy_loop.simps)
      (simp add: choice_def d s4 a3 n3 l3)
  have l1: "strategy_loop p 3 draws_three_strategies 2 [correct_answer p + 1]
            = Some (Inr ([- correct_answer p, correct_answer p - 1, correct_answer p + 1], 6))"
    by (subst strategy_loop.simps)
      (simp add: choice_def d s9 a2 l2)
  have l0: "strategy_loop p 3 draws_three_strategies 0 []
            = Some (Inr ([- correct_answer p, correct_answer p - 1, correct_answer p + 1], 6))"
    by (subst strategy_loop.simps)
      (simp add: choice_def d s8 a1 l1 [unfolded numeral_2_eq_2])
  have f: "fallback_loop p 3 draws_three_strategies 6
              [- correct_answer p, correct_answer p - 1, correct_answer p + 1]
            = Some (Inr ([- correct_answer p, correct_answer p - 1, correct_answer p + 1], 6))"
    by (subst fallback_loop.simps) simp
  show ?thesis by (simp add: generate_wrong_answers_def l0 f)
qed

lemma create_new_problem_returns:
  assumes "level g = 1"
  shows "\<exists>g2. create_new_problem rnd_problem draws_three_strategies rnd_shuffle g = Some (Inr g2)"
proof -
  from generate_tier1_answer [of rnd_problem] obtain p where
    gen: "generate 1 rnd_problem = Inr p" and c: "2 \<le> correct_answer p" by blast
  have gen': "generate (min 15 (max 1 (level g))) rnd_problem = Inr p"
    using gen by (simp add: assms)
  show ?thesis
    unfolding create_new_problem_def gen'
    by (simp add: create_answer_buttons_def wrong_answers_three_strategies [OF c] Let_def)
qed

lemma spawn_position_corner:
  "spawn_position (Player_init 450 350) draws_corner_spawn i = Some (Inr ((50, 50), i + 2))"
proof -
  have "sqrt ((50 - 450)\<^sup>2 + (50 - 350)\<^sup>2) = (500::real)"
    by (rule real_sqrt_unique) simp_all
  then show ?thesis
    by (subst spawn_position.simps)
      (simp add: randint_def game_width_def game_height_def math_sqrt_def Player_init_def
        draws_corner_spawn_def)
qed

lemma spawn_enemies_returns:
  assumes "player g = Player_init 450 350" "level g = 1"
  shows "\<exists>g'. spawn_enemies draws_corner_spawn g = Some (Inr g')"
  using assms
  by (simp add: spawn_enemies_def numeral_3_eq_3 spawn_position_corner)

lemma reset_game_returns:
  "\<exists>g'. reset_game rnd_problem draws_three_strategies rnd_shuffle draws_corner_spawn g
           = Some (Inr g')"
proof -
  have l: "level (reset_state g) = 1" by (simp add: reset_state_def)
  from create_new_problem_returns [OF l] obtain g2 where
    c: "create_new_problem rnd_problem draws_three_strategies rnd_shuffle (reset_state g)
          = Some (Inr g2)"
    by blast
  from create_new_problem_frame [OF c] obtain p bs where
    g2: "g2 = (reset_state g)\<lparr>current_problem := p, answer_buttons := bs\<rparr>" by blast
  have "player g2 = Player_init 450 350" "level g2 = 1"
    by (simp_all add: g2 reset_state_def game_width_def game_height_def)
  from spawn_enemies_returns [OF this] show ?thesis
    unfolding reset_game_def c by simp
qed

text \<open>
  C10. For every game: with suitable draws for the two loops (and any draws for the
  problem and the shuffle) \<open>reset_game\<close> returns; the assignments at its head set the score
  to 0, the level to 1, the streak to 0 and \<open>enemies_killed\<close> to 0, put a new player at
  the centre of the window and empty the bullet list, and leave \<open>high_score\<close> and
  \<open>total_enemies_killed\<close> as they were; and whenever \<open>reset_game\<close> returns, for any
  draws, the game it returns has these values.
\<close>

theorem reset_game_effects:
  "(\<exists>g'. reset_game rnd_problem draws_three_strategies rnd_shuffle draws_corner_spawn g
            = Some (Inr g'))
   \<and> score (reset_state g) = 0 \<and> level (reset_state g) = 1 \<and> streak (reset_state g) = 0
   \<and> enemies_killed (reset_state g) = 0
   \<and> player (reset_state g) = Player_init 450 350 \<and> bullets (reset_state g) = []
   \<and> high_score (reset_state g) = high_score g
   \<and> total_enemies_killed (reset_state g) = total_enemies_killed g
   \<and> (\<forall>rp rw rs re g'. reset_game rp rw rs re g = Some (Inr g') \<longrightarrow>
         score g' = 0 \<and> level g' = 1 \<and> streak g' = 0 \<and> enemies_killed g' = 0
         \<and> player g' = Player_init 450 350 \<and> bullets g' = []
         \<and> high_score g' = high_score g
         \<and> total_enemies_killed g' = total_enemies_killed g)"
proof (intro conjI allI impI)
  show "\<exists>g'. reset_game rnd_problem draws_three_strategies rnd_shuffle draws_corner_spawn g
            = Some (Inr g')"
    by (rule reset_game_returns)
next
  fix rp rw rs re g'
  assume r: "reset_game rp rw rs re g = Some (Inr g')"
  from reset_game_frame [OF r] obtain p bs es where
    g': "g' = (reset_state g)\<lparr>current_problem := p, answer_buttons := bs, enemies := es\<rparr>"
    by blast
  show "score g' = 0" "level g' = 1" "streak g' = 0" "enemies_killed g' = 0"
    "player g' = Player_init 450 350" "bullets g' = []" "high_score g' = high_score g"
    "total_enemies_killed g' = total_enemies_killed g"
    using reset_state_fields [of g] by (simp_all add: g')
qed (simp_all add: reset_state_fields)

theorem reset_game_effects_witness:
  "\<exists>g'. reset_game (\<lambda>k. k + 2) draws_three_strategies (\<lambda>k. 0) draws_corner_spawn sample_game
           = Some (Inr g')
       \<and> score g' = 0 \<and> level g' = 1 \<and> streak g' = 0 \<and> enemies_killed g' = 0
       \<and> player g' = Player_init 450 350 \<and> bullets g' = []
       \<and> high_score g' = 500 \<and> total_enemies_killed g' = 7
       \<and> score sample_game = 120 \<and> level sample_game = 4 \<and> streak sample_game = 2
       \<and> length (bullets sample_game) = 1"
proof -
  from reset_game_effects [of "\<lambda>k. k + 2" "\<lambda>k. 0" sample_game] obtain g' where
    r: "reset_game (\<lambda>k. k + 2) draws_three_strategies (\<lambda>k. 0) draws_corner_spawn sample_game
          = Some (Inr g')"
    by blast
  with reset_game_effects [of "\<lambda>k. k + 2" "\<lambda>k. 0" sample_game]
  have "score g' = 0 \<and> level g' = 1 \<and> streak g' = 0 \<and> enemies_killed g' = 0
         \<and> player g' = Player_init 450 350 \<and> bullets g' = []
         \<and> high_score g' = high_score sample_game
         \<and> total_enemies_killed g' = total_enemies_killed sample_game"
    by blast
  with r show ?thesis by (auto simp: sample_game_def)
qed

end
